theory Spec2Isabelle
  imports Complex_Main "HOL-Library.AList"
begin

section \<open>Values, errors and the supervisor service\<close>

text \<open>
  The client of \<^verbatim>\<open>benchbot_api/benchbot.py\<close> talks to a remote supervisor over HTTP and
  handles the decoded JSON bodies as ordinary Python values. A decoded body is one of the
  values below; a JSON object keeps its members in order, as a Python dictionary does.
\<close>

datatype json =
    JNull
  | JBool bool
  | JInt int
  | JFloat rat
  | JStr string
  | JList "json list"
  | JObj "(string \<times> json) list"

text \<open>
  Exceptions are values. \<open>TypeError\<close>, \<open>AttributeError\<close>, \<open>IndexError\<close> and
  \<open>ImportError\<close> are kept without their text. \<open>RequestError\<close> stands for whatever
  \<^verbatim>\<open>requests.get\<close> itself raises (unreachable host, timeout, bad URL), \<open>DecodeError\<close> for
  a body that \<^verbatim>\<open>resp.json()\<close> cannot decode. \<open>UnexpectedResponseError n\<close> is
  \<^verbatim>\<open>_UnexpectedResponseError(n)\<close>, whose text is built from the status code \<open>n\<close>.

  The text of a \<^verbatim>\<open>requests.ConnectionError\<close> is a \<open>message\<close>: either a finished string,
  or the format of \<^verbatim>\<open>_send\<close>,
  \<^verbatim>\<open>"... with input data: %s, %s, %s" % (route_name, route_type.name, data)\<close>,
  kept with its three arguments because the rendering of a dictionary by \<^verbatim>\<open>%s\<close> is
  Python's own.
\<close>

datatype message =
    Text string
  | SendFailureText string string "(string \<times> json) list"

datatype py_error =
    TypeError
  | AttributeError
  | IndexError
  | ImportError
  | KeyError string
  | ValueError string
  | RuntimeError string
  | RequestError
  | DecodeError
  | UnexpectedResponseError nat
  | ConnectionError message

datatype ActionResult = SUCCESS | FINISHED | COLLISION

datatype RouteType = CONNECTION | CONFIG | SIMULATOR | STATUS | EXPLICIT

text \<open>
  \<^verbatim>\<open>_build_address\<close> compares its \<^verbatim>\<open>route_type\<close> argument with the five members of the
  enumeration and has a final \<^verbatim>\<open>else\<close> for anything else. \<open>NotARoute s\<close> is such a value,
  \<open>s\<close> being the text \<^verbatim>\<open>%s\<close> gives it in the error message.
\<close>

datatype route_arg = Route RouteType | NotARoute string

text \<open>
  One exchange with the supervisor: the URL requested and, for \<^verbatim>\<open>_send\<close>, the dictionary
  passed as \<^verbatim>\<open>json=\<close>. The supervisor is outside the program; it is any function from
  the exchanges made so far and the present one to a reply. The state threaded through
  the client's operations is the list of exchanges attempted, oldest first.
\<close>

type_synonym request = "string \<times> (string \<times> json) list option"

datatype reply =
    Unreachable
  | Response nat "json option"

type_synonym service = "request list \<Rightarrow> request \<Rightarrow> reply"

text \<open>
  A callback of the registry is a Python function of one raw observation; it returns a
  value or raises. The registry \<^verbatim>\<open>self._connection_callbacks\<close> maps a connection name to a
  callback or to \<^verbatim>\<open>None\<close>.

  Of the object \<^verbatim>\<open>BenchBot\<close> the model keeps the address and the registry. The agent
  is used by \<^verbatim>\<open>__init__\<close> and \<^verbatim>\<open>run\<close> only; these two, \<^verbatim>\<open>result_filename\<close> and the
  text printed on the console are not modelled. The leading underscore of \<^verbatim>\<open>_receive\<close>,
  \<^verbatim>\<open>_send\<close>, \<^verbatim>\<open>_build_address\<close> and \<^verbatim>\<open>_attempt_connection_imports\<close> is dropped.
\<close>

type_synonym callback = "json \<Rightarrow> py_error + json"

record benchbot =
  supervisor_address :: string
  connection_callbacks :: "(string \<times> callback option) list"

section \<open>Python primitives used by the client\<close>

definition endswith :: "string \<Rightarrow> char \<Rightarrow> bool" where
  "endswith s c = (s \<noteq> [] \<and> last s = c)"

text \<open>\<^verbatim>\<open>sep.join(xs)\<close>\<close>

fun join :: "string \<Rightarrow> string list \<Rightarrow> string" where
  "join sep [] = []"
| "join sep [x] = x"
| "join sep (x # y # ys) = x @ sep @ join sep (y # ys)"

text \<open>\<^verbatim>\<open>s.split(c)\<close> for a one-character separator: never empty, \<^verbatim>\<open>''.split(':') == ['']\<close>.\<close>

fun py_split :: "char \<Rightarrow> string \<Rightarrow> string list" where
  "py_split sep [] = [[]]"
| "py_split sep (c # cs) =
     (if c = sep then [] # py_split sep cs
      else (case py_split sep cs of
              [] \<Rightarrow> [[c]]
            | f # fs \<Rightarrow> (c # f) # fs))"

text \<open>Truth value of a decoded body, as \<^verbatim>\<open>if x:\<close> takes it.\<close>

fun truthy :: "json \<Rightarrow> bool" where
  "truthy JNull = False"
| "truthy (JBool b) = b"
| "truthy (JInt i) = (i \<noteq> 0)"
| "truthy (JFloat r) = (r \<noteq> 0)"
| "truthy (JStr s) = (s \<noteq> [])"
| "truthy (JList xs) = (xs \<noteq> [])"
| "truthy (JObj kvs) = (kvs \<noteq> [])"

text \<open>\<^verbatim>\<open>x[key]\<close> with a string key: only a dictionary accepts it.\<close>

fun subscript :: "json \<Rightarrow> string \<Rightarrow> py_error + json" where
  "subscript (JObj kvs) key =
     (case map_of kvs key of None \<Rightarrow> Inl (KeyError key) | Some v \<Rightarrow> Inr v)"
| "subscript _ key = Inl TypeError"

text \<open>\<^verbatim>\<open>for o in x\<close>: a list gives its elements, a dictionary its keys, a string its characters.\<close>

fun iterate :: "json \<Rightarrow> py_error + json list" where
  "iterate (JList xs) = Inr xs"
| "iterate (JObj kvs) = Inr (map (\<lambda>kv. JStr (fst kv)) kvs)"
| "iterate (JStr s) = Inr (map (\<lambda>c. JStr [c]) s)"
| "iterate _ = Inl TypeError"

section \<open>Route resolver: \<^verbatim>\<open>BenchBot._build_address\<close>\<close>

definition build_address :: "string \<Rightarrow> string \<Rightarrow> route_arg \<Rightarrow> py_error + string" where
  "build_address address route_name route_type =
     (let base = address @ (if endswith address CHR ''/'' then '''' else ''/'')
      in if route_type = Route CONNECTION then Inr (base @ ''connections/'' @ route_name)
         else if route_type = Route CONFIG then Inr (base @ ''config/'' @ route_name)
         else if route_type = Route SIMULATOR then Inr (base @ ''simulator/'' @ route_name)
         else if route_type = Route STATUS then Inr (base @ ''status/'' @ route_name)
         else if route_type = Route EXPLICIT then Inr (base @ route_name)
         else Inl (ValueError (''Cannot build address from invalid route type: '' @
                (case route_type of NotARoute s \<Rightarrow> s | Route _ \<Rightarrow> ''''))))"

section \<open>Transport shim: \<^verbatim>\<open>BenchBot._receive\<close> and \<^verbatim>\<open>BenchBot._send\<close>\<close>

text \<open>
  The body of the \<^verbatim>\<open>try\<close> block of \<^verbatim>\<open>_receive\<close>: resolve the address, make the exchange,
  raise \<^verbatim>\<open>_UnexpectedResponseError\<close> on a status of 300 or more, decode the body.
\<close>

definition receive_try ::
  "service \<Rightarrow> benchbot \<Rightarrow> request list \<Rightarrow> string \<Rightarrow> route_arg \<Rightarrow> (py_error + json) \<times> request list"
where
  "receive_try svc self hist route_name route_type =
     (case build_address (supervisor_address self) route_name route_type of
        Inl e \<Rightarrow> (Inl e, hist)
      | Inr url \<Rightarrow>
          (case svc hist (url, None) of
             Unreachable \<Rightarrow> (Inl RequestError, hist @ [(url, None)])
           | Response status_code body \<Rightarrow>
               if status_code \<ge> 300
               then (Inl (UnexpectedResponseError status_code), hist @ [(url, None)])
               else (case body of
                       None \<Rightarrow> (Inl DecodeError, hist @ [(url, None)])
                     | Some j \<Rightarrow> (Inr j, hist @ [(url, None)]))))"

text \<open>The bare \<^verbatim>\<open>except:\<close> of \<^verbatim>\<open>_receive\<close> replaces whatever the block raised.\<close>

definition receive ::
  "service \<Rightarrow> benchbot \<Rightarrow> request list \<Rightarrow> string \<Rightarrow> route_arg \<Rightarrow> (py_error + json) \<times> request list"
where
  "receive svc self hist route_name route_type =
     (case receive_try svc self hist route_name route_type of
        (Inl e, hist') \<Rightarrow>
          (Inl (ConnectionError
             (Text ''Failed to establish a connection to BenchBot supervisor'')), hist')
      | (Inr j, hist') \<Rightarrow> (Inr j, hist'))"

definition send_try ::
  "service \<Rightarrow> benchbot \<Rightarrow> request list \<Rightarrow> string \<Rightarrow> (string \<times> json) list \<Rightarrow> route_arg
     \<Rightarrow> (py_error + unit) \<times> request list"
where
  "send_try svc self hist route_name data route_type =
     (case build_address (supervisor_address self) route_name route_type of
        Inl e \<Rightarrow> (Inl e, hist)
      | Inr url \<Rightarrow>
          (case svc hist (url, Some data) of
             Unreachable \<Rightarrow> (Inl RequestError, hist @ [(url, Some data)])
           | Response status_code body \<Rightarrow>
               if status_code \<ge> 300
               then (Inl (UnexpectedResponseError status_code), hist @ [(url, Some data)])
               else (Inr (), hist @ [(url, Some data)])))"

text \<open>
  \<^verbatim>\<open>route_type.name\<close> in the handler of \<^verbatim>\<open>_send\<close>: the member's name; a value that is no
  member has no such attribute.
\<close>

fun route_type_name :: "route_arg \<Rightarrow> py_error + string" where
  "route_type_name (Route CONNECTION) = Inr ''CONNECTION''"
| "route_type_name (Route CONFIG) = Inr ''CONFIG''"
| "route_type_name (Route SIMULATOR) = Inr ''SIMULATOR''"
| "route_type_name (Route STATUS) = Inr ''STATUS''"
| "route_type_name (Route EXPLICIT) = Inr ''EXPLICIT''"
| "route_type_name (NotARoute s) = Inl AttributeError"

definition send ::
  "service \<Rightarrow> benchbot \<Rightarrow> request list \<Rightarrow> string \<Rightarrow> (string \<times> json) list option \<Rightarrow> route_arg
     \<Rightarrow> (py_error + unit) \<times> request list"
where
  "send svc self hist route_name data route_type =
     (let data = (case data of None \<Rightarrow> [] | Some d \<Rightarrow> d)
      in case send_try svc self hist route_name data route_type of
           (Inl e, hist') \<Rightarrow>
             (case route_type_name route_type of
                Inl e' \<Rightarrow> (Inl e', hist')
              | Inr n \<Rightarrow> (Inl (ConnectionError (SendFailureText route_name n data)), hist'))
         | (Inr u, hist') \<Rightarrow> (Inr u, hist'))"

section \<open>Connection manager: \<^verbatim>\<open>BenchBot.start\<close>\<close>

text \<open>
  The pattern \<^verbatim>\<open>self._receive(name, route_type)[name]\<close> used as a condition: fetch the
  body, index it with the flag's name, take the truth value.
\<close>

definition receive_flag ::
  "service \<Rightarrow> benchbot \<Rightarrow> request list \<Rightarrow> string \<Rightarrow> route_arg \<Rightarrow> (py_error + bool) \<times> request list"
where
  "receive_flag svc self hist name route_type =
     (case receive svc self hist name route_type of
        (Inl e, hist') \<Rightarrow> (Inl e, hist')
      | (Inr j, hist') \<Rightarrow>
          (case subscript j name of
             Inl e \<Rightarrow> (Inl e, hist')
           | Inr v \<Rightarrow> (Inr (truthy v), hist')))"

text \<open>\<^verbatim>\<open>key in x\<close> for a string key: dictionary key, list element, or substring of a string.\<close>

fun substring :: "string \<Rightarrow> string \<Rightarrow> bool" where
  "substring key [] = (key = [])"
| "substring key (c # cs) = (take (length key) (c # cs) = key \<or> substring key cs)"

fun contains :: "json \<Rightarrow> string \<Rightarrow> py_error + bool" where
  "contains (JObj kvs) key = Inr (key \<in> set (map fst kvs))"
| "contains (JList xs) key = Inr (JStr key \<in> set xs)"
| "contains (JStr s) key = Inr (substring key s)"
| "contains _ key = Inl TypeError"

text \<open>\<^verbatim>\<open>s.rsplit(c, 1)\<close>: cut at the last separator, if there is one.\<close>

definition rsplit1 :: "char \<Rightarrow> string \<Rightarrow> string list" where
  "rsplit1 sep s =
     (if sep \<in> set s
      then [rev (drop 1 (dropWhile (\<lambda>c. c \<noteq> sep) (rev s))),
            rev (takeWhile (\<lambda>c. c \<noteq> sep) (rev s))]
      else [s])"

text \<open>
  The modules importable by \<^verbatim>\<open>importlib.import_module\<close>, by full name, each with the
  attributes \<^verbatim>\<open>getattr\<close> finds in it. They are outside this file and are a parameter.
\<close>

type_synonym modules = "string \<Rightarrow> (string \<Rightarrow> callback option) option"

definition attempt_connection_imports :: "modules \<Rightarrow> json \<Rightarrow> py_error + callback option" where
  "attempt_connection_imports mods connection_data =
     (case contains connection_data ''callback_api'' of
        Inl e \<Rightarrow> Inl e
      | Inr False \<Rightarrow> Inr None
      | Inr True \<Rightarrow>
          (case subscript connection_data ''callback_api'' of
             Inl e \<Rightarrow> Inl e
           | Inr (JStr path) \<Rightarrow>
               (let x = rsplit1 CHR ''.'' path
                in case mods (''benchbot_api.'' @ hd x) of
                     None \<Rightarrow> Inl ImportError
                   | Some namespace \<Rightarrow>
                       (case tl x of
                          [] \<Rightarrow> Inl IndexError
                        | attr # _ \<Rightarrow>
                            (case namespace attr of
                               None \<Rightarrow> Inl AttributeError
                             | Some f \<Rightarrow> Inr (Some f))))
           | Inr _ \<Rightarrow> Inl AttributeError))"

text \<open>
  The dictionary comprehension of \<^verbatim>\<open>start\<close> over the items of the robot configuration.
\<close>

fun import_all ::
  "modules \<Rightarrow> (string \<times> json) list \<Rightarrow> (string \<times> callback option) list
     \<Rightarrow> py_error + (string \<times> callback option) list"
where
  "import_all mods [] acc = Inr acc"
| "import_all mods ((k, v) # rest) acc =
     (case attempt_connection_imports mods v of
        Inl e \<Rightarrow> Inl e
      | Inr f \<Rightarrow> import_all mods rest (AList.update k f acc))"

text \<open>
  The loop \<^verbatim>\<open>while not self._receive("is_running", ...)['is_running']: time.sleep(0.1)\<close>.
  It has no bound; \<open>None\<close> is the loop that never ends. The pause is not modelled.
\<close>

partial_function (option) wait_until_running ::
  "service \<Rightarrow> benchbot \<Rightarrow> request list \<Rightarrow> ((py_error + unit) \<times> request list) option"
where
  "wait_until_running svc self hist =
     (case receive_flag svc self hist ''is_running'' (Route SIMULATOR) of
        (Inl e, hist') \<Rightarrow> Some (Inl e, hist')
      | (Inr running, hist') \<Rightarrow>
          if running then Some (Inr (), hist') else wait_until_running svc self hist')"

text \<open>
  \<^verbatim>\<open>start\<close>: probe the root, re-raising a \<^verbatim>\<open>requests.ConnectionError\<close> as
  \<^verbatim>\<open>type(e)\<close> with a text naming the address; wait for the simulator; build the
  registry. The progress notices printed on the way are not part of the model.
\<close>

definition start ::
  "service \<Rightarrow> modules \<Rightarrow> benchbot \<Rightarrow> request list \<Rightarrow> ((py_error + benchbot) \<times> request list) option"
where
  "start svc mods self hist =
     (case receive svc self hist ''/'' (Route EXPLICIT) of
        (Inl e, h1) \<Rightarrow>
          Some (Inl (case e of
                       ConnectionError _ \<Rightarrow>
                         ConnectionError (Text (''Could not find a BenchBot supervisor @ '' @ [CHR 39]
                           @ supervisor_address self @ [CHR 39]
                           @ ''. Are you sure it is available?''))
                     | _ \<Rightarrow> e), h1)
      | (Inr _, h1) \<Rightarrow>
          (case wait_until_running svc self h1 of
             None \<Rightarrow> None
           | Some (Inl e, h2) \<Rightarrow> Some (Inl e, h2)
           | Some (Inr _, h2) \<Rightarrow>
               (case receive svc self h2 ''robot'' (Route CONFIG) of
                  (Inl e, h3) \<Rightarrow> Some (Inl e, h3)
                | (Inr (JObj items), h3) \<Rightarrow>
                    (case import_all mods items [] of
                       Inl e \<Rightarrow> Some (Inl e, h3)
                     | Inr registry \<Rightarrow>
                         Some (Inr (self\<lparr>connection_callbacks := registry\<rparr>), h3))
                | (Inr _, h3) \<Rightarrow> Some (Inl AttributeError, h3))))"

section \<open>Properties of the supervisor read by the client\<close>

text \<open>
  \<^verbatim>\<open>BenchBot.actions\<close>: the conditional expression evaluates the collision flag, then (by
  \<^verbatim>\<open>or\<close>) the finished flag only when the first was false, then one of its two branches.
\<close>

definition actions ::
  "service \<Rightarrow> benchbot \<Rightarrow> request list \<Rightarrow> (py_error + json) \<times> request list"
where
  "actions svc self hist =
     (case receive_flag svc self hist ''is_collided'' (Route SIMULATOR) of
        (Inl e, h1) \<Rightarrow> (Inl e, h1)
      | (Inr True, h1) \<Rightarrow> (Inr (JList []), h1)
      | (Inr False, h1) \<Rightarrow>
          (case receive_flag svc self h1 ''is_finished'' (Route STATUS) of
             (Inl e, h2) \<Rightarrow> (Inl e, h2)
           | (Inr True, h2) \<Rightarrow> (Inr (JList []), h2)
           | (Inr False, h2) \<Rightarrow> receive svc self h2 ''actions'' (Route CONFIG)))"

definition observations ::
  "service \<Rightarrow> benchbot \<Rightarrow> request list \<Rightarrow> (py_error + json) \<times> request list"
where
  "observations svc self hist = receive svc self hist ''observations'' (Route CONFIG)"

text \<open>
  \<^verbatim>\<open>BenchBot.task_details\<close>: \<^verbatim>\<open>zip\<close> stops at the shorter of the three keys and the
  pieces of the task name; the keys are distinct, so the dictionary built from the pairs
  is the list of pairs. Only a string has \<^verbatim>\<open>split\<close>.
\<close>

definition task_details ::
  "service \<Rightarrow> benchbot \<Rightarrow> request list \<Rightarrow> (py_error + (string \<times> string) list) \<times> request list"
where
  "task_details svc self hist =
     (case receive svc self hist ''task_name'' (Route CONFIG) of
        (Inl e, hist') \<Rightarrow> (Inl e, hist')
      | (Inr (JStr task_name), hist') \<Rightarrow>
          (Inr (zip [''type'', ''control_mode'', ''localisation_mode'']
                    (py_split CHR '':'' task_name)), hist')
      | (Inr _, hist') \<Rightarrow> (Inl AttributeError, hist'))"

section \<open>Action validator and step executor: \<^verbatim>\<open>BenchBot.step\<close>\<close>

text \<open>
  The operands of \<^verbatim>\<open>+\<close> in the messages of \<^verbatim>\<open>step\<close> are the action (a string or
  \<^verbatim>\<open>None\<close>), string literals and the two lengths (integers). \<^verbatim>\<open>+\<close> joins two strings,
  adds two integers and raises \<^verbatim>\<open>TypeError\<close> on any other pair; a chain
  \<^verbatim>\<open>a + b + c\<close> is evaluated from the left.
\<close>

datatype pyval = PNone | PStr string | PInt int

fun py_add :: "pyval \<Rightarrow> pyval \<Rightarrow> py_error + pyval" where
  "py_add (PStr a) (PStr b) = Inr (PStr (a @ b))"
| "py_add (PInt a) (PInt b) = Inr (PInt (a + b))"
| "py_add _ _ = Inl TypeError"

fun py_add_chain :: "pyval \<Rightarrow> pyval list \<Rightarrow> py_error + pyval" where
  "py_add_chain v [] = Inr v"
| "py_add_chain v (w # ws) =
     (case py_add v w of Inl e \<Rightarrow> Inl e | Inr u \<Rightarrow> py_add_chain u ws)"

text \<open>
  \<^verbatim>\<open>raise RuntimeError(expr)\<close>: the exception raised is the one \<open>expr\<close> raises, if it
  raises, and the \<^verbatim>\<open>RuntimeError\<close> otherwise. The expressions here give strings.
\<close>

definition raise_RuntimeError :: "py_error + pyval \<Rightarrow> py_error" where
  "raise_RuntimeError msg =
     (case msg of Inl e \<Rightarrow> e | Inr (PStr s) \<Rightarrow> RuntimeError s | Inr _ \<Rightarrow> RuntimeError [])"

fun pyval_of_action :: "string option \<Rightarrow> pyval" where
  "pyval_of_action None = PNone"
| "pyval_of_action (Some a) = PStr a"

text \<open>The schema, a dictionary literal of \<^verbatim>\<open>step\<close>; its keys in the order written.\<close>

definition VALID_ACTIONS :: "(string \<times> string list) list" where
  "VALID_ACTIONS =
     [(''move_next'', []),
      (''move_distance'', [''distance'']),
      (''move_angle'', [''angle''])]"

text \<open>\<^verbatim>\<open>action in VALID_ACTIONS\<close> and \<^verbatim>\<open>VALID_ACTIONS[action]\<close>; \<^verbatim>\<open>None\<close> is no key.\<close>

fun is_valid_action :: "string option \<Rightarrow> bool" where
  "is_valid_action None = False"
| "is_valid_action (Some a) = (a \<in> set (map fst VALID_ACTIONS))"

fun valid_arguments :: "string option \<Rightarrow> py_error + string list" where
  "valid_arguments None = Inl (KeyError [])"
| "valid_arguments (Some a) =
     (case map_of VALID_ACTIONS a of None \<Rightarrow> Inl (KeyError a) | Some args \<Rightarrow> Inr args)"

text \<open>
  The loop over \<^verbatim>\<open>action_kwargs.items()\<close>: the list of invalid names is emptied at the
  start of every iteration, so the error is raised at the first name that is not valid
  and lists that name.
\<close>

fun check_arguments :: "string \<Rightarrow> string list \<Rightarrow> (string \<times> json) list \<Rightarrow> py_error + unit" where
  "check_arguments action valid [] = Inr ()"
| "check_arguments action valid ((arg_name, _) # rest) =
     (let invalid = (if arg_name \<notin> set valid then [] @ [arg_name] else [])
      in if length invalid \<noteq> 0
         then Inl (RuntimeError (''Valid arguments to '' @ action @ '' are: '' @
                join '' ,'' valid @ ''. The following arguments are invalid: '' @
                join '' ,'' invalid))
         else check_arguments action valid rest)"

text \<open>
  The three checks at the head of \<^verbatim>\<open>step\<close>. The keyword arguments
  \<^verbatim>\<open>**action_kwargs\<close> are a dictionary with string keys, here the list of its items.
\<close>

definition validate :: "string option \<Rightarrow> (string \<times> json) list \<Rightarrow> py_error + unit" where
  "validate action action_kwargs =
     (if \<not> is_valid_action action
      then Inl (raise_RuntimeError (py_add_chain (pyval_of_action action)
             [PStr ('' not a valid action. Valid actions are '' @ [CHR 34]),
              PStr (join '', '' (map fst VALID_ACTIONS))]))
      else (case valid_arguments action of
              Inl e \<Rightarrow> Inl e
            | Inr valid \<Rightarrow>
                (let action_kwargs_len = int (length action_kwargs);
                     valid_action_kwargs_len = int (length valid)
                 in if action_kwargs_len \<noteq> valid_action_kwargs_len
                    then Inl (raise_RuntimeError (py_add_chain (pyval_of_action action)
                           [PStr '' requires '', PInt valid_action_kwargs_len,
                            PStr '' arguments. You supplied '', PInt action_kwargs_len]))
                    else check_arguments (case action of Some a \<Rightarrow> a | None \<Rightarrow> [])
                           valid action_kwargs)))"

text \<open>The derivation of the result: \<^verbatim>\<open>SUCCESS\<close> unless one of the flags says otherwise.\<close>

definition derive_action_result ::
  "service \<Rightarrow> benchbot \<Rightarrow> request list \<Rightarrow> (py_error + ActionResult) \<times> request list"
where
  "derive_action_result svc self hist =
     (case receive_flag svc self hist ''is_collided'' (Route SIMULATOR) of
        (Inl e, h1) \<Rightarrow> (Inl e, h1)
      | (Inr True, h1) \<Rightarrow> (Inr COLLISION, h1)
      | (Inr False, h1) \<Rightarrow>
          (case receive_flag svc self h1 ''is_finished'' (Route STATUS) of
             (Inl e, h2) \<Rightarrow> (Inl e, h2)
           | (Inr True, h2) \<Rightarrow> (Inr FINISHED, h2)
           | (Inr False, h2) \<Rightarrow> (Inr SUCCESS, h2)))"

text \<open>
  \<^verbatim>\<open>{o: self._receive(o) for o in ...}\<close>: one fetch per element, in order, on the
  connection namespace (the default of \<^verbatim>\<open>_receive\<close>). An element that is not a string
  makes \<^verbatim>\<open>_build_address\<close> raise \<^verbatim>\<open>TypeError\<close> inside the \<^verbatim>\<open>try\<close> of \<^verbatim>\<open>_receive\<close>,
  before any exchange, and the handler turns that into the connection error. A key
  seen twice is fetched twice and keeps its first place with the later value.
\<close>

fun fetch_raw ::
  "service \<Rightarrow> benchbot \<Rightarrow> request list \<Rightarrow> json list \<Rightarrow> (string \<times> json) list
     \<Rightarrow> (py_error + (string \<times> json) list) \<times> request list"
where
  "fetch_raw svc self hist [] raw_os = (Inr raw_os, hist)"
| "fetch_raw svc self hist (JStr name # rest) raw_os =
     (case receive svc self hist name (Route CONNECTION) of
        (Inl e, hist') \<Rightarrow> (Inl e, hist')
      | (Inr v, hist') \<Rightarrow> fetch_raw svc self hist' rest (AList.update name v raw_os))"
| "fetch_raw svc self hist (_ # rest) raw_os =
     (Inl (ConnectionError
        (Text ''Failed to establish a connection to BenchBot supervisor'')), hist)"

text \<open>
  The second comprehension: \<^verbatim>\<open>self._connection_callbacks[k]\<close> is looked up first and
  raises \<^verbatim>\<open>KeyError\<close> for a key the registry does not have.
\<close>

fun apply_callbacks ::
  "(string \<times> callback option) list \<Rightarrow> (string \<times> json) list \<Rightarrow> py_error + (string \<times> json) list"
where
  "apply_callbacks registry [] = Inr []"
| "apply_callbacks registry ((k, v) # rest) =
     (case map_of registry k of
        None \<Rightarrow> Inl (KeyError k)
      | Some cb \<Rightarrow>
          (case (case cb of None \<Rightarrow> Inr v | Some f \<Rightarrow> f v) of
             Inl e \<Rightarrow> Inl e
           | Inr v' \<Rightarrow>
               (case apply_callbacks registry rest of
                  Inl e \<Rightarrow> Inl e
                | Inr out \<Rightarrow> Inr ((k, v') # out))))"

text \<open>
  The last statements of \<^verbatim>\<open>step\<close>: read the key list (the property
  \<^verbatim>\<open>observations\<close>), fetch every raw value, apply the registry.
\<close>

definition fetch_observations ::
  "service \<Rightarrow> benchbot \<Rightarrow> request list \<Rightarrow> (py_error + (string \<times> json) list) \<times> request list"
where
  "fetch_observations svc self hist =
     (case observations svc self hist of
        (Inl e, h1) \<Rightarrow> (Inl e, h1)
      | (Inr keys, h1) \<Rightarrow>
          (case iterate keys of
             Inl e \<Rightarrow> (Inl e, h1)
           | Inr os \<Rightarrow>
               (case fetch_raw svc self h1 os [] of
                  (Inl e, h2) \<Rightarrow> (Inl e, h2)
                | (Inr raw_os, h2) \<Rightarrow>
                    (case apply_callbacks (connection_callbacks self) raw_os of
                       Inl e \<Rightarrow> (Inl e, h2)
                     | Inr obs \<Rightarrow> (Inr obs, h2)))))"

text \<open>
  The call \<^verbatim>\<open>bot.step(action, **action_kwargs)\<close> of
  \<^verbatim>\<open>def step(self, action, **action_kwargs)\<close>: Python binds the arguments before the
  body runs. \<^verbatim>\<open>self\<close> and \<^verbatim>\<open>action\<close> are given by position, so a keyword with one of
  these two names raises \<^verbatim>\<open>TypeError\<close> (multiple values for the argument), and so does a
  keyword given twice. What is left is the dictionary \<^verbatim>\<open>action_kwargs\<close>.
\<close>

definition bind_step :: "(string \<times> json) list \<Rightarrow> py_error + unit" where
  "bind_step action_kwargs =
     (if ''self'' \<in> set (map fst action_kwargs)
         \<or> ''action'' \<in> set (map fst action_kwargs)
         \<or> \<not> distinct (map fst action_kwargs)
      then Inl TypeError
      else Inr ())"

definition step ::
  "service \<Rightarrow> benchbot \<Rightarrow> request list \<Rightarrow> string option \<Rightarrow> (string \<times> json) list
     \<Rightarrow> (py_error + (string \<times> json) list \<times> ActionResult) \<times> request list"
where
  "step svc self hist action action_kwargs =
     (case bind_step action_kwargs of
        Inl e \<Rightarrow> (Inl e, hist)
      | Inr _ \<Rightarrow>
     (case validate action action_kwargs of
        Inl e \<Rightarrow> (Inl e, hist)
      | Inr _ \<Rightarrow>
          (case (case action of
                   None \<Rightarrow> (Inr (), hist)
                 | Some a \<Rightarrow> send svc self hist a (Some action_kwargs) (Route CONNECTION)) of
             (Inl e, h1) \<Rightarrow> (Inl e, h1)
           | (Inr _, h1) \<Rightarrow>
               (case derive_action_result svc self h1 of
                  (Inl e, h2) \<Rightarrow> (Inl e, h2)
                | (Inr action_result, h2) \<Rightarrow>
                    (case fetch_observations svc self h2 of
                       (Inl e, h3) \<Rightarrow> (Inl e, h3)
                     | (Inr obs, h3) \<Rightarrow> (Inr (obs, action_result), h3))))))"

text \<open>
  \<^verbatim>\<open>BenchBot.reset\<close>: restart a dirty simulator (the body of the reply is dropped), then
  \<^verbatim>\<open>self.step(None)\<close>.
\<close>

definition reset ::
  "service \<Rightarrow> benchbot \<Rightarrow> request list
     \<Rightarrow> (py_error + (string \<times> json) list \<times> ActionResult) \<times> request list"
where
  "reset svc self hist =
     (case receive_flag svc self hist ''is_dirty'' (Route SIMULATOR) of
        (Inl e, h1) \<Rightarrow> (Inl e, h1)
      | (Inr True, h1) \<Rightarrow>
          (case receive svc self h1 ''restart'' (Route SIMULATOR) of
             (Inl e, h2) \<Rightarrow> (Inl e, h2)
           | (Inr _, h2) \<Rightarrow> step svc self h2 None [])
      | (Inr False, h1) \<Rightarrow> step svc self h1 None [])"

section \<open>Notions of the specification\<close>

text \<open>
  The specification's route resolver: the base with a trailing slash ensured, and the
  fixed prefix of each namespace.
\<close>

definition ensure_trailing_slash :: "string \<Rightarrow> string" where
  "ensure_trailing_slash base =
     (if base \<noteq> [] \<and> last base = CHR ''/'' then base else base @ ''/'')"

definition route_prefix :: "RouteType \<Rightarrow> string" where
  "route_prefix rt =
     (case rt of
        CONNECTION \<Rightarrow> ''connections/''
      | CONFIG \<Rightarrow> ''config/''
      | SIMULATOR \<Rightarrow> ''simulator/''
      | STATUS \<Rightarrow> ''status/''
      | EXPLICIT \<Rightarrow> [])"

text \<open>The exchange that fetches a resource of a namespace.\<close>

definition resource :: "benchbot \<Rightarrow> RouteType \<Rightarrow> string \<Rightarrow> request" where
  "resource self rt name =
     (ensure_trailing_slash (supervisor_address self) @ route_prefix rt @ name, None)"

text \<open>
  The supervisor answers an exchange when it replies with a status below 300 and a body
  that decodes.
\<close>

definition answers :: "service \<Rightarrow> request list \<Rightarrow> request \<Rightarrow> json \<Rightarrow> bool" where
  "answers svc hist req body =
     (case svc hist req of
        Unreachable \<Rightarrow> False
      | Response status_code b \<Rightarrow> status_code < 300 \<and> b = Some body)"

text \<open>
  The dictionary Python builds from a sequence of items: a key seen again keeps its place
  and takes the later value.
\<close>

definition py_dict :: "(string \<times> json) list \<Rightarrow> (string \<times> json) list" where
  "py_dict items = foldl (\<lambda>d kv. AList.update (fst kv) (snd kv) d) [] items"

text \<open>
  An entry of the returned observations against the raw entry, for a registry: the same
  key, with the raw value itself when the registry holds \<^verbatim>\<open>None\<close> for the key, and
  with what the callback returns on the raw value when the registry holds a callback. A
  key the registry does not have has no transformed entry.
\<close>

definition transformed ::
  "(string \<times> callback option) list \<Rightarrow> string \<times> json \<Rightarrow> string \<times> json \<Rightarrow> bool"
where
  "transformed registry raw out =
     (fst out = fst raw \<and>
      (case map_of registry (fst raw) of
         None \<Rightarrow> False
       | Some None \<Rightarrow> snd out = snd raw
       | Some (Some f) \<Rightarrow> f (snd raw) = Inr (snd out)))"

text \<open>
  The supervisor accepts an exchange when it replies with a status below 300; the
  exchange that sends an action carries its keyword arguments.
\<close>

definition accepts :: "service \<Rightarrow> request list \<Rightarrow> request \<Rightarrow> bool" where
  "accepts svc hist req =
     (case svc hist req of
        Unreachable \<Rightarrow> False
      | Response status_code b \<Rightarrow> status_code < 300)"

definition action_request :: "benchbot \<Rightarrow> string \<Rightarrow> (string \<times> json) list \<Rightarrow> request" where
  "action_request self a action_kwargs =
     (ensure_trailing_slash (supervisor_address self) @ route_prefix CONNECTION @ a,
      Some action_kwargs)"

section \<open>A supervisor and a client for the examples\<close>

definition unreachable :: service where
  "unreachable hist req = Unreachable"

definition fresh_bot :: benchbot where
  "fresh_bot =
     \<lparr>supervisor_address = ''http://benchbot_supervisor:10000/'', connection_callbacks = []\<rparr>"

definition not_found :: service where
  "not_found hist req = Response 404 None"

text \<open>
  A supervisor with two observations and the three actions; its two flags are given as
  functions of the exchanges made so far.
\<close>

definition world :: "(request list \<Rightarrow> bool) \<Rightarrow> (request list \<Rightarrow> bool) \<Rightarrow> service" where
  "world collided finished hist req =
     (case map_of
        [(''http://benchbot_supervisor:10000/simulator/is_collided'',
            JObj [(''is_collided'', JBool (collided hist))]),
         (''http://benchbot_supervisor:10000/status/is_finished'',
            JObj [(''is_finished'', JBool (finished hist))]),
         (''http://benchbot_supervisor:10000/config/actions'',
            JList [JStr ''move_next'', JStr ''move_distance'', JStr ''move_angle'']),
         (''http://benchbot_supervisor:10000/config/observations'',
            JList [JStr ''image_rgb'', JStr ''poses'']),
         (''http://benchbot_supervisor:10000/connections/image_rgb'', JStr ''raw pixels''),
         (''http://benchbot_supervisor:10000/connections/poses'', JObj [(''x'', JInt 1)]),
         (''http://benchbot_supervisor:10000/connections/move_next'', JNull)]
        (fst req) of
        None \<Rightarrow> Response 404 None
      | Some body \<Rightarrow> Response 200 (Some body))"

text \<open>The robot has moved once an action was sent.\<close>

definition moved :: "request list \<Rightarrow> bool" where
  "moved hist = list_ex (\<lambda>r. snd r \<noteq> None) hist"

text \<open>A client after \<^verbatim>\<open>start\<close>: one observation has a callback, the other has none.\<close>

definition started_bot :: benchbot where
  "started_bot =
     \<lparr>supervisor_address = ''http://benchbot_supervisor:10000/'',
      connection_callbacks = [(''image_rgb'', Some (\<lambda>v. Inr (JList [v]))), (''poses'', None)]\<rparr>"

text \<open>
  A supervisor whose robot has collided and whose status and action resources are down.
\<close>

definition crashed :: service where
  "crashed hist req =
     (if fst req = ''http://benchbot_supervisor:10000/status/is_finished''
         \<or> fst req = ''http://benchbot_supervisor:10000/config/actions''
      then Response 503 None
      else world (\<lambda>h. True) (\<lambda>h. True) hist req)"

section \<open>Route resolver\<close>

text \<open>
  C9. For every base address (so for every non-empty one), every resource name and every
  member of the namespace enumeration, \<^verbatim>\<open>_build_address\<close> returns the base with a
  trailing slash ensured, followed by the prefix of the namespace and the resource name.
  The ensured base ends with a slash. The function is a function of its arguments alone,
  and it fails exactly when the namespace argument is no member of the enumeration.
\<close>

theorem build_address_resolves:
  "build_address base route_name (Route rt)
     = Inr (ensure_trailing_slash base @ route_prefix rt @ route_name)
   \<and> last (ensure_trailing_slash base) = CHR ''/''
   \<and> ((\<exists>e. build_address base route_name route_type = Inl e)
        \<longleftrightarrow> (\<exists>s. route_type = NotARoute s))"
proof -
  have resolved: "build_address base route_name (Route rt)
     = Inr (ensure_trailing_slash base @ route_prefix rt @ route_name)"
    by (cases rt)
      (simp_all add: build_address_def ensure_trailing_slash_def route_prefix_def endswith_def)
  have slash: "last (ensure_trailing_slash base) = CHR ''/''"
    by (simp add: ensure_trailing_slash_def)
  have fails: "(\<exists>e. build_address base route_name route_type = Inl e)
        \<longleftrightarrow> (\<exists>s. route_type = NotARoute s)"
  proof (cases route_type)
    case (Route r)
    then show ?thesis by (cases r) (simp_all add: build_address_def)
  next
    case (NotARoute s)
    then show ?thesis by (simp add: build_address_def)
  qed
  from resolved slash fails show ?thesis by blast
qed

theorem build_address_resolves_witness:
  "build_address ''http://benchbot_supervisor:10000'' ''is_finished'' (Route STATUS)
     = Inr ''http://benchbot_supervisor:10000/status/is_finished''
   \<and> build_address ''http://benchbot_supervisor:10000/'' ''/'' (Route EXPLICIT)
     = Inr ''http://benchbot_supervisor:10000//''"
  using build_address_resolves
          [of "''http://benchbot_supervisor:10000''" "''is_finished''" STATUS]
        build_address_resolves
          [of "''http://benchbot_supervisor:10000/''" "''/''" EXPLICIT]
  by (simp add: ensure_trailing_slash_def route_prefix_def)

section \<open>The step with no action\<close>

lemma validate_None: "validate None action_kwargs = Inl TypeError"
  by (simp add: validate_def raise_RuntimeError_def)

text \<open>
  C1. \<^verbatim>\<open>step(None)\<close>, which \<^verbatim>\<open>reset\<close> calls for the initial step, does not bypass the
  validation: \<^verbatim>\<open>None\<close> is no key of the schema, the message of the error is built with
  \<^verbatim>\<open>None + '...'\<close>, and the step ends with \<^verbatim>\<open>TypeError\<close> before any exchange with the
  supervisor. No pair of observations and result is returned.
\<close>

theorem step_None_raises_TypeError:
  "step svc self hist None action_kwargs = (Inl TypeError, hist)"
  by (simp add: step_def validate_None bind_step_def)

lemma reset_never_returns: "fst (reset svc self hist) \<noteq> Inr x"
  by (simp add: reset_def step_def validate_None bind_step_def
        split: prod.splits sum.splits bool.splits)

section \<open>Facts about the exchanges\<close>

lemma build_address_Route:
  "build_address base route_name (Route rt)
     = Inr (ensure_trailing_slash base @ route_prefix rt @ route_name)"
  by (cases rt)
    (simp_all add: build_address_def ensure_trailing_slash_def route_prefix_def endswith_def)

lemma receive_try_Route:
  "receive_try svc self hist name (Route rt) =
     (case svc hist (resource self rt name) of
        Unreachable \<Rightarrow> (Inl RequestError, hist @ [resource self rt name])
      | Response status_code body \<Rightarrow>
          if status_code \<ge> 300
          then (Inl (UnexpectedResponseError status_code), hist @ [resource self rt name])
          else (case body of
                  None \<Rightarrow> (Inl DecodeError, hist @ [resource self rt name])
                | Some j \<Rightarrow> (Inr j, hist @ [resource self rt name])))"
  unfolding resource_def by (simp add: receive_try_def build_address_Route)

lemma receive_error:
  "receive svc self hist name route_type = (Inl e, hist')
     \<Longrightarrow> e = ConnectionError (Text ''Failed to establish a connection to BenchBot supervisor'')"
  by (auto simp: receive_def split: prod.splits sum.splits)

lemma receive_Unreachable:
  "svc hist (resource self rt name) = Unreachable \<Longrightarrow>
   receive svc self hist name (Route rt) =
     (Inl (ConnectionError (Text ''Failed to establish a connection to BenchBot supervisor'')),
      hist @ [resource self rt name])"
  by (simp add: receive_def receive_try_Route)

lemma receive_status:
  "svc hist (resource self rt name) = Response status_code body \<Longrightarrow> status_code \<ge> 300 \<Longrightarrow>
   receive svc self hist name (Route rt) =
     (Inl (ConnectionError (Text ''Failed to establish a connection to BenchBot supervisor'')),
      hist @ [resource self rt name])"
  by (simp add: receive_def receive_try_Route)

lemma receive_body:
  "svc hist (resource self rt name) = Response status_code (Some j) \<Longrightarrow> status_code < 300 \<Longrightarrow>
   receive svc self hist name (Route rt) = (Inr j, hist @ [resource self rt name])"
  by (simp add: receive_def receive_try_Route)

section \<open>Transport shim\<close>

text \<open>
  C2. The two classified errors are not both produced. A reply with status 404 makes the
  \<^verbatim>\<open>try\<close> block raise \<^verbatim>\<open>_UnexpectedResponseError(404)\<close>, but the bare \<^verbatim>\<open>except:\<close>
  around it catches that too and raises \<^verbatim>\<open>requests.ConnectionError\<close>: the caller of
  \<^verbatim>\<open>_receive\<close> gets the very error an unreachable host gives, and the status code is lost.
  \<^verbatim>\<open>_send\<close> does the same.
\<close>

theorem error_status_raises_ConnectionError:
  "receive_try not_found self hist name (Route rt)
     = (Inl (UnexpectedResponseError 404), hist @ [resource self rt name])
   \<and> receive not_found self hist name (Route rt)
     = (Inl (ConnectionError (Text ''Failed to establish a connection to BenchBot supervisor'')),
        hist @ [resource self rt name])
   \<and> fst (receive not_found self hist name (Route rt))
     = fst (receive unreachable self hist name (Route rt))
   \<and> fst (send_try not_found self hist name data (Route CONNECTION))
     = Inl (UnexpectedResponseError 404)
   \<and> fst (send not_found self hist name (Some data) (Route CONNECTION))
     = Inl (ConnectionError (SendFailureText name ''CONNECTION'' data))"
  by (simp add: receive_def receive_try_Route send_def send_try_def build_address_Route
        not_found_def unreachable_def)

section \<open>Action validator\<close>

lemma is_valid_action_iff: "is_valid_action (Some a) \<longleftrightarrow> map_of VALID_ACTIONS a \<noteq> None"
  by (simp add: map_of_eq_None_iff)

lemma validate_Some:
  assumes "map_of VALID_ACTIONS a = Some valid"
  shows "validate (Some a) action_kwargs =
           (if length action_kwargs \<noteq> length valid then Inl TypeError
            else check_arguments a valid action_kwargs)"
proof -
  have "is_valid_action (Some a)"
    using assms by (simp only: is_valid_action_iff) simp
  then show ?thesis
    using assms by (simp add: validate_def raise_RuntimeError_def)
qed

lemma validate_accepts:
  "validate (Some ''move_next'') [] = Inr ()"
  "validate (Some ''move_distance'') [(''distance'', JFloat (3 / 2))] = Inr ()"
  "validate (Some ''move_angle'') [(''angle'', JInt 0)] = Inr ()"
  by (simp_all add: validate_def VALID_ACTIONS_def)

lemma schema_cases:
  assumes "map_of VALID_ACTIONS a = Some valid"
  shows "(a = ''move_next'' \<and> valid = []) \<or> (a = ''move_distance'' \<and> valid = [''distance''])
         \<or> (a = ''move_angle'' \<and> valid = [''angle''])"
  using assms by (simp add: VALID_ACTIONS_def split: if_splits)

lemma bind_step_Nil: "bind_step [] = Inr ()"
  by (simp add: bind_step_def)

lemma bind_step_single:
  "bind_step [(n, v)] = (if n = ''self'' \<or> n = ''action'' then Inl TypeError else Inr ())"
  by (auto simp: bind_step_def)

lemma bind_step_error: "bind_step action_kwargs = Inl e \<Longrightarrow> e = TypeError"
  by (simp add: bind_step_def split: if_splits)

lemma check_arguments_names:
  "check_arguments a valid action_kwargs = Inr () \<Longrightarrow> set (map fst action_kwargs) \<subseteq> set valid"
  by (induction a valid action_kwargs rule: check_arguments.induct)
     (auto split: if_splits)

lemma validate_binds:
  assumes "validate (Some a) action_kwargs = Inr ()"
  shows "bind_step action_kwargs = Inr ()"
proof -
  from assms have valid_action: "is_valid_action (Some a)"
    by (auto simp: validate_def split: if_splits)
  then have "map_of VALID_ACTIONS a \<noteq> None"
    unfolding is_valid_action_iff .
  then obtain valid where schema: "map_of VALID_ACTIONS a = Some valid"
    by blast
  from assms have len: "length action_kwargs = length valid"
    and checked: "check_arguments a valid action_kwargs = Inr ()"
    by (auto simp: validate_Some [OF schema] split: if_splits)
  from check_arguments_names [OF checked] have names: "set (map fst action_kwargs) \<subseteq> set valid" .
  from schema_cases [OF schema] have short: "length valid \<le> 1"
    and params: "''self'' \<notin> set valid" "''action'' \<notin> set valid"
    by auto
  from len short have "length action_kwargs \<le> 1"
    by simp
  then have "distinct (map fst action_kwargs)"
    by (cases action_kwargs) simp_all
  with names params show ?thesis
    by (auto simp: bind_step_def)
qed

lemma schema_validates:
  assumes "map_of VALID_ACTIONS a = Some (map fst action_kwargs)"
  shows "validate (Some a) action_kwargs = Inr ()"
proof -
  from schema_cases [OF assms] consider
      "action_kwargs = []"
    | v where "action_kwargs = [(''distance'', v)]"
    | v where "action_kwargs = [(''angle'', v)]"
    by (cases action_kwargs) auto
  then show ?thesis
    using assms by cases (simp_all add: validate_Some [OF assms])
qed

lemma step_parameter_keyword:
  assumes "''self'' \<in> set (map fst action_kwargs) \<or> ''action'' \<in> set (map fst action_kwargs)"
  shows "step svc self hist action action_kwargs = (Inl TypeError, hist)"
  using assms by (auto simp: step_def bind_step_def)

text \<open>
  C3. For an action of the schema and a number of keyword arguments other than the number
  the schema requires, the step fails and nothing is sent; but the error is not the
  \<^verbatim>\<open>RuntimeError\<close> with the counts: its message is built with
  \<^verbatim>\<open>action + ' requires ' + _valid_action_kwargs_len\<close>, a string plus an integer, and the
  step ends with \<^verbatim>\<open>TypeError\<close>.
\<close>

theorem argument_count_mismatch_raises_TypeError:
  assumes "map_of VALID_ACTIONS a = Some valid"
      and "length action_kwargs \<noteq> length valid"
  shows "step svc self hist (Some a) action_kwargs = (Inl TypeError, hist)"
  using assms by (simp add: step_def validate_Some bind_step_def)

theorem argument_count_mismatch_raises_TypeError_witness:
  "map_of VALID_ACTIONS ''move_next'' = Some []
   \<and> length [(''distance'', JInt 1)] \<noteq> length ([] :: string list)
   \<and> step unreachable fresh_bot [] (Some ''move_next'') [(''distance'', JInt 1)]
       = (Inl TypeError, [])"
proof -
  have s: "map_of VALID_ACTIONS ''move_next'' = Some []"
    by (simp add: VALID_ACTIONS_def)
  have l: "length [(''distance'', JInt 1)] \<noteq> length ([] :: string list)"
    by simp
  from argument_count_mismatch_raises_TypeError [OF s l] s l show ?thesis
    by blast
qed

text \<open>
  C7, as stated, fails for a keyword named like a parameter of \<^verbatim>\<open>step\<close>: with
  \<^verbatim>\<open>step('move_distance', action=1)\<close> one keyword is supplied, as many as required, and
  its name is not \<^verbatim>\<open>distance\<close>, yet the call ends with the \<^verbatim>\<open>TypeError\<close> of the
  argument binding and not with the \<^verbatim>\<open>RuntimeError\<close> that lists the name.
\<close>

theorem keyword_named_action_counterexample:
  "map_of VALID_ACTIONS ''move_distance'' = Some [''distance'']
   \<and> length [(''action'', JInt 1)] = length [''distance'']
   \<and> ''action'' \<notin> set [''distance'']
   \<and> step unreachable fresh_bot [] (Some ''move_distance'') [(''action'', JInt 1)]
       = (Inl TypeError, [])"
  by (simp add: VALID_ACTIONS_def step_def bind_step_single)

text \<open>
  C7, amended. For an action of the schema, exactly the required number of keyword
  arguments, none of them named \<^verbatim>\<open>self\<close> or \<^verbatim>\<open>action\<close>, and some supplied name that the
  schema does not require, the step fails with the \<^verbatim>\<open>RuntimeError\<close> whose message names
  the valid arguments and lists the supplied names that are not valid; nothing is sent.
  (No entry of the schema requires more than one argument, so one name is supplied and
  it is the offending one.)
\<close>

theorem invalid_argument_name_raises:
  assumes "map_of VALID_ACTIONS a = Some valid"
      and "length action_kwargs = length valid"
      and "\<exists>n \<in> set (map fst action_kwargs). n \<notin> set valid"
      and "''self'' \<notin> set (map fst action_kwargs)"
      and "''action'' \<notin> set (map fst action_kwargs)"
  shows "step svc self hist (Some a) action_kwargs =
           (Inl (RuntimeError (''Valid arguments to '' @ a @ '' are: '' @ join '' ,'' valid
              @ ''. The following arguments are invalid: ''
              @ join '' ,'' (filter (\<lambda>n. n \<notin> set valid) (map fst action_kwargs)))), hist)"
proof -
  from schema_cases [OF assms(1)] have "length valid \<le> 1" by auto
  with assms(2) have short: "length action_kwargs \<le> 1" by simp
  from assms(3) obtain n where n: "n \<in> set (map fst action_kwargs)" and bad: "n \<notin> set valid"
    by blast
  from n short obtain v where kw: "action_kwargs = [(n, v)]"
    by (cases action_kwargs) auto
  from kw assms(4) assms(5) have bound: "bind_step action_kwargs = Inr ()"
    by (simp add: bind_step_single)
  have "validate (Some a) action_kwargs = check_arguments a valid action_kwargs"
    using assms(2) by (simp add: validate_Some [OF assms(1)])
  with kw bad bound show ?thesis
    by (simp add: step_def)
qed

theorem invalid_argument_name_raises_witness:
  "step unreachable fresh_bot [] (Some ''move_distance'') [(''angle'', JInt 1)] =
     (Inl (RuntimeError
        ''Valid arguments to move_distance are: distance. The following arguments are invalid: angle''),
      [])"
proof -
  have s: "map_of VALID_ACTIONS ''move_distance'' = Some [''distance'']"
    by (simp add: VALID_ACTIONS_def)
  have l: "length [(''angle'', JInt 1)] = length [''distance'']"
    by simp
  have b: "\<exists>n \<in> set (map fst [(''angle'', JInt 1)]). n \<notin> set [''distance'']"
    by simp
  have p1: "''self'' \<notin> set (map fst [(''angle'', JInt 1)])"
    by simp
  have p2: "''action'' \<notin> set (map fst [(''angle'', JInt 1)])"
    by simp
  from invalid_argument_name_raises [OF s l b p1 p2, of unreachable fresh_bot "[]"] show ?thesis
    by simp
qed

section \<open>Connection manager\<close>

text \<open>
  C8. When the supervisor cannot be reached for the probe of the root route, \<^verbatim>\<open>start\<close>
  ends at once with \<^verbatim>\<open>requests.ConnectionError\<close>, and the message holds the configured
  supervisor address between quotes. One exchange was attempted.
\<close>

theorem start_unreachable_ConnectionError:
  assumes "svc hist (resource self EXPLICIT ''/'') = Unreachable"
  shows "start svc mods self hist =
           Some (Inl (ConnectionError (Text (''Could not find a BenchBot supervisor @ '' @ [CHR 39]
                   @ supervisor_address self @ [CHR 39] @ ''. Are you sure it is available?''))),
                 hist @ [resource self EXPLICIT ''/''])"
  using assms by (simp add: start_def receive_Unreachable)

theorem start_unreachable_ConnectionError_witness:
  "unreachable [] (resource fresh_bot EXPLICIT ''/'') = Unreachable
   \<and> start unreachable (\<lambda>m. None) fresh_bot [] =
       Some (Inl (ConnectionError (Text (''Could not find a BenchBot supervisor @ '' @ [CHR 39]
               @ ''http://benchbot_supervisor:10000/'' @ [CHR 39]
               @ ''. Are you sure it is available?''))),
             [(''http://benchbot_supervisor:10000//'', None)])"
proof -
  have u: "unreachable [] (resource fresh_bot EXPLICIT ''/'') = Unreachable"
    by (simp add: unreachable_def)
  from start_unreachable_ConnectionError
         [where svc = unreachable and hist = "[]" and self = fresh_bot and mods = "\<lambda>m. None"] u
  show ?thesis
    by (simp add: fresh_bot_def resource_def ensure_trailing_slash_def route_prefix_def)
qed

section \<open>Task details\<close>

lemma py_split_not_Nil: "py_split sep s \<noteq> []"
  by (induction s) (auto split: list.splits)

lemma length_py_split: "length (py_split sep s) = Suc (count_list s sep)"
  by (induction s) (auto split: list.splits simp: py_split_not_Nil)

lemma join_Cons: "fs \<noteq> [] \<Longrightarrow> join sep (f # fs) = f @ sep @ join sep fs"
  by (cases fs) simp_all

lemma join_py_split: "join [sep] (py_split sep s) = s"
proof (induction s)
  case Nil
  then show ?case by simp
next
  case (Cons c cs)
  show ?case
  proof (cases "c = sep")
    case True
    with Cons show ?thesis by (simp add: join_Cons py_split_not_Nil)
  next
    case False
    obtain f fs where split: "py_split sep cs = f # fs"
      using py_split_not_Nil [of sep cs] by (cases "py_split sep cs") auto
    with Cons False show ?thesis by (cases fs) simp_all
  qed
qed

lemma py_split_fields: "f \<in> set (py_split sep s) \<Longrightarrow> sep \<notin> set f"
  by (induction s arbitrary: f) (auto split: list.splits if_splits)

lemma map_fst_zip_fields: "map fst (zip ks fs) = take (length fs) ks"
  by (simp add: map_fst_zip_take min_def)

lemma map_snd_zip_keys: "length ks = n \<Longrightarrow> map snd (zip ks fs) = take n fs"
  by (auto simp: map_snd_zip_take min_def)

text \<open>
  C10. When the supervisor gives a string as task name, \<^verbatim>\<open>task_details\<close> returns without
  error the pairs of the keys \<^verbatim>\<open>type\<close>, \<^verbatim>\<open>control_mode\<close>, \<^verbatim>\<open>localisation_mode\<close> with
  the pieces of the name between colons, by position (the pieces joined by colons are the
  name again). The keys present are the first ones, as many as there are pieces (one
  more than colons in the name), and the values are the first three pieces: a key with no
  piece is absent and a fourth or later piece is dropped.
\<close>

theorem task_details_pairs_fields:
  assumes "receive svc self hist ''task_name'' (Route CONFIG) = (Inr (JStr task_name), hist')"
  shows "\<exists>d. task_details svc self hist = (Inr d, hist')
           \<and> d = zip [''type'', ''control_mode'', ''localisation_mode'']
                     (py_split CHR '':'' task_name)
           \<and> join '':'' (py_split CHR '':'' task_name) = task_name
           \<and> map fst d = take (Suc (count_list task_name CHR '':''))
                            [''type'', ''control_mode'', ''localisation_mode'']
           \<and> map snd d = take 3 (py_split CHR '':'' task_name)"
proof -
  let ?keys = "[''type'', ''control_mode'', ''localisation_mode'']"
  let ?fields = "py_split CHR '':'' task_name"
  have details: "task_details svc self hist = (Inr (zip ?keys ?fields), hist')"
    using assms by (simp add: task_details_def)
  have keys: "map fst (zip ?keys ?fields) = take (Suc (count_list task_name CHR '':'')) ?keys"
    by (simp only: map_fst_zip_fields length_py_split)
  have "length ?keys = 3" by simp
  then have fields: "map snd (zip ?keys ?fields) = take 3 ?fields"
    by (rule map_snd_zip_keys)
  have joined: "join '':'' ?fields = task_name"
    by (rule join_py_split)
  from details keys fields joined show ?thesis
    by blast
qed

theorem task_details_pairs_fields_witness:
  "task_details (\<lambda>hist req. Response 200 (Some (JStr ''semantic_slam:active''))) fresh_bot []
     = (Inr [(''type'', ''semantic_slam''), (''control_mode'', ''active'')],
        [(''http://benchbot_supervisor:10000/config/task_name'', None)])
   \<and> fst (task_details (\<lambda>hist req. Response 200 (Some (JStr ''a:b:c:d''))) fresh_bot [])
     = Inr [(''type'', ''a''), (''control_mode'', ''b''), (''localisation_mode'', ''c'')]"
proof -
  let ?h = "[(''http://benchbot_supervisor:10000/config/task_name'', None)]"
  have r1: "receive (\<lambda>hist req. Response 200 (Some (JStr ''semantic_slam:active''))) fresh_bot []
              ''task_name'' (Route CONFIG) = (Inr (JStr ''semantic_slam:active''), ?h)"
    by (simp add: receive_def receive_try_def build_address_def endswith_def fresh_bot_def)
  have r2: "receive (\<lambda>hist req. Response 200 (Some (JStr ''a:b:c:d''))) fresh_bot []
              ''task_name'' (Route CONFIG) = (Inr (JStr ''a:b:c:d''), ?h)"
    by (simp add: receive_def receive_try_def build_address_def endswith_def fresh_bot_def)
  from task_details_pairs_fields [OF r1] task_details_pairs_fields [OF r2] show ?thesis
    by simp
qed

section \<open>Facts about flags, fetches and the example supervisor\<close>

lemma receive_answers:
  "answers svc hist (resource self rt name) body \<Longrightarrow>
   receive svc self hist name (Route rt) = (Inr body, hist @ [resource self rt name])"
  by (auto simp: answers_def receive_def receive_try_Route split: reply.splits)

lemma snd_receive: "snd (receive svc self hist name (Route rt)) = hist @ [resource self rt name]"
  by (simp add: receive_def receive_try_Route split: reply.splits option.splits)

lemma snd_receive_flag:
  "snd (receive_flag svc self hist name (Route rt)) = hist @ [resource self rt name]"
  using snd_receive [of svc self hist name rt]
  by (auto simp: receive_flag_def split: prod.splits sum.splits)

lemma receive_flag_hist:
  "receive_flag svc self hist name (Route rt) = (r, h) \<Longrightarrow> h = hist @ [resource self rt name]"
  using snd_receive_flag [of svc self hist name rt] by simp

lemma fetch_raw_answers:
  assumes "length vals = length names"
      and "\<forall>i<length names.
             answers svc (hist @ map (resource self CONNECTION) (take i names))
               (resource self CONNECTION (names ! i)) (vals ! i)"
  shows "fetch_raw svc self hist (map JStr names) acc =
           (Inr (foldl (\<lambda>d kv. AList.update (fst kv) (snd kv) d) acc (zip names vals)),
            hist @ map (resource self CONNECTION) names)"
  using assms
proof (induction names arbitrary: vals hist acc)
  case Nil
  then show ?case by simp
next
  case (Cons n ns)
  from Cons.prems(1) obtain v vs where vals: "vals = v # vs" and len: "length vs = length ns"
    by (cases vals) auto
  from Cons.prems(2) have "answers svc (hist @ map (resource self CONNECTION) (take 0 (n # ns)))
               (resource self CONNECTION ((n # ns) ! 0)) (vals ! 0)"
    by blast
  then have first: "receive svc self hist n (Route CONNECTION)
      = (Inr v, hist @ [resource self CONNECTION n])"
    using vals by (simp add: receive_answers)
  have rest: "\<forall>i<length ns.
             answers svc ((hist @ [resource self CONNECTION n]) @ map (resource self CONNECTION) (take i ns))
               (resource self CONNECTION (ns ! i)) (vs ! i)"
  proof (intro allI impI)
    fix i assume "i < length ns"
    then have "Suc i < length (n # ns)" by simp
    with Cons.prems(2) have "answers svc (hist @ map (resource self CONNECTION) (take (Suc i) (n # ns)))
               (resource self CONNECTION ((n # ns) ! Suc i)) (vals ! Suc i)"
      by blast
    then show "answers svc ((hist @ [resource self CONNECTION n]) @ map (resource self CONNECTION) (take i ns))
               (resource self CONNECTION (ns ! i)) (vs ! i)"
      using vals by simp
  qed
  from Cons.IH [OF len rest] first vals show ?case by simp
qed

lemma apply_callbacks_Cons:
  "apply_callbacks registry ((k, v) # raw) = Inr obs \<longleftrightarrow>
     (\<exists>out outs. obs = out # outs \<and> transformed registry (k, v) out
                 \<and> apply_callbacks registry raw = Inr outs)"
  by (auto simp: transformed_def prod_eq_iff split: option.splits sum.splits)

lemma apply_callbacks_Inr_iff:
  "apply_callbacks registry raw = Inr obs \<longleftrightarrow> list_all2 (transformed registry) raw obs"
proof (induction raw arbitrary: obs)
  case Nil
  then show ?case by auto
next
  case (Cons kv raw)
  obtain k v where kv: "kv = (k, v)" by (cases kv)
  have "apply_callbacks registry (kv # raw) = Inr obs \<longleftrightarrow>
     (\<exists>out outs. obs = out # outs \<and> transformed registry kv out
                 \<and> apply_callbacks registry raw = Inr outs)"
    unfolding kv by (rule apply_callbacks_Cons)
  also have "\<dots> \<longleftrightarrow> (\<exists>out outs. obs = out # outs \<and> transformed registry kv out
                 \<and> list_all2 (transformed registry) raw outs)"
    using Cons.IH by simp
  also have "\<dots> \<longleftrightarrow> list_all2 (transformed registry) (kv # raw) obs"
    by (auto simp: list_all2_Cons1)
  finally show ?case .
qed




lemma foldl_update_distinct:
  "distinct (map fst (acc @ items)) \<Longrightarrow>
   foldl (\<lambda>d kv. AList.update (fst kv) (snd kv) d) acc items = acc @ items"
proof (induction items arbitrary: acc)
  case Nil
  then show ?case by simp
next
  case (Cons kv items)
  from Cons.prems have "fst kv \<notin> fst ` set acc" by auto
  then have "AList.update (fst kv) (snd kv) acc = acc @ [kv]"
    by (induction acc) auto
  with Cons.IH [of "acc @ [kv]"] Cons.prems show ?case by simp
qed

lemma py_dict_distinct: "distinct (map fst items) \<Longrightarrow> py_dict items = items"
  using foldl_update_distinct [of "[]" items] by (simp add: py_dict_def)

lemma fetch_observations_answers:
  assumes listed: "answers svc hist (resource self CONFIG ''observations'') (JList (map JStr names))"
      and len: "length vals = length names"
      and vals: "\<forall>i<length names.
             answers svc (hist @ resource self CONFIG ''observations''
                               # map (resource self CONNECTION) (take i names))
               (resource self CONNECTION (names ! i)) (vals ! i)"
  shows "fetch_observations svc self hist =
           (case apply_callbacks (connection_callbacks self) (py_dict (zip names vals)) of
              Inl e \<Rightarrow> Inl e | Inr obs \<Rightarrow> Inr obs,
            hist @ resource self CONFIG ''observations'' # map (resource self CONNECTION) names)"
proof -
  let ?h = "hist @ [resource self CONFIG ''observations'']"
  have keys: "observations svc self hist = (Inr (JList (map JStr names)), ?h)"
    using listed by (simp add: observations_def receive_answers)
  have "\<forall>i<length names.
             answers svc (?h @ map (resource self CONNECTION) (take i names))
               (resource self CONNECTION (names ! i)) (vals ! i)"
    using vals by simp
  from fetch_raw_answers [OF len this, of "[]"]
  have "fetch_raw svc self ?h (map JStr names) [] =
          (Inr (py_dict (zip names vals)), ?h @ map (resource self CONNECTION) names)"
    by (simp add: py_dict_def)
  with keys show ?thesis
    by (simp add: fetch_observations_def split: sum.splits)
qed

lemma validate_move_next: "validate (Some ''move_next'') [] = Inr ()"
  by (simp add: validate_def VALID_ACTIONS_def)

lemma world_send:
  assumes "supervisor_address b = ''http://benchbot_supervisor:10000/''"
  shows "send (world c f) b hist ''move_next'' (Some []) (Route CONNECTION)
           = (Inr (), hist @ [(''http://benchbot_supervisor:10000/connections/move_next'', Some [])])"
  using assms by (simp add: send_def send_try_def build_address_def endswith_def world_def)

lemma world_flags:
  assumes "supervisor_address b = ''http://benchbot_supervisor:10000/''"
  shows "receive_flag (world c f) b hist ''is_collided'' (Route SIMULATOR)
     = (Inr (c hist), hist @ [(''http://benchbot_supervisor:10000/simulator/is_collided'', None)])"
    and "receive_flag (world c f) b hist ''is_finished'' (Route STATUS)
     = (Inr (f hist), hist @ [(''http://benchbot_supervisor:10000/status/is_finished'', None)])"
  using assms
  by (simp_all add: receive_flag_def receive_def receive_try_def build_address_def endswith_def
        world_def)

lemma world_actions:
  assumes "supervisor_address b = ''http://benchbot_supervisor:10000/''"
  shows "receive (world c f) b hist ''actions'' (Route CONFIG)
     = (Inr (JList [JStr ''move_next'', JStr ''move_distance'', JStr ''move_angle'']),
        hist @ [(''http://benchbot_supervisor:10000/config/actions'', None)])"
  using assms
  by (simp add: receive_def receive_try_def build_address_def endswith_def world_def)

lemma world_resource:
  assumes "supervisor_address b = ''http://benchbot_supervisor:10000/''"
  shows "resource b CONFIG name = (''http://benchbot_supervisor:10000/config/'' @ name, None)"
    and "resource b CONNECTION name = (''http://benchbot_supervisor:10000/connections/'' @ name, None)"
    and "resource b SIMULATOR name = (''http://benchbot_supervisor:10000/simulator/'' @ name, None)"
    and "resource b STATUS name = (''http://benchbot_supervisor:10000/status/'' @ name, None)"
  using assms by (simp_all add: resource_def ensure_trailing_slash_def route_prefix_def)

lemma world_listed:
  assumes "supervisor_address b = ''http://benchbot_supervisor:10000/''"
  shows "answers (world c f) hist (resource b CONFIG ''observations'')
           (JList (map JStr [''image_rgb'', ''poses'']))"
  using assms by (simp add: answers_def world_def world_resource)

lemma world_values:
  assumes "supervisor_address b = ''http://benchbot_supervisor:10000/''"
  shows "\<forall>i<length [''image_rgb'', ''poses''].
           answers (world c f) (hist @ resource b CONFIG ''observations''
                         # map (resource b CONNECTION) (take i [''image_rgb'', ''poses'']))
             (resource b CONNECTION ([''image_rgb'', ''poses''] ! i))
             ([JStr ''raw pixels'', JObj [(''x'', JInt 1)]] ! i)"
  using assms by (simp add: All_less_Suc answers_def world_def world_resource)

lemma world_fetch_observations:
  assumes "supervisor_address b = ''http://benchbot_supervisor:10000/''"
  shows "fetch_observations (world c f) b hist =
           (case apply_callbacks (connection_callbacks b)
                   [(''image_rgb'', JStr ''raw pixels''), (''poses'', JObj [(''x'', JInt 1)])] of
              Inl e \<Rightarrow> Inl e | Inr obs \<Rightarrow> Inr obs,
            hist @ [(''http://benchbot_supervisor:10000/config/observations'', None),
                    (''http://benchbot_supervisor:10000/connections/image_rgb'', None),
                    (''http://benchbot_supervisor:10000/connections/poses'', None)])"
proof -
  have len: "length [JStr ''raw pixels'', JObj [(''x'', JInt 1)]] = length [''image_rgb'', ''poses'']"
    by simp
  from fetch_observations_answers [OF world_listed [OF assms] len world_values [OF assms]]
  show ?thesis
    by (simp add: py_dict_def world_resource [OF assms])
qed

lemma send_accepts:
  "accepts svc hist (action_request self a action_kwargs) \<Longrightarrow>
   send svc self hist a (Some action_kwargs) (Route CONNECTION)
     = (Inr (), hist @ [action_request self a action_kwargs])"
  by (auto simp: accepts_def action_request_def send_def send_try_def build_address_Route
           split: reply.splits)

lemma receive_flag_answers:
  "answers svc hist (resource self rt name) (JObj kvs) \<Longrightarrow> map_of kvs name = Some v \<Longrightarrow>
   receive_flag svc self hist name (Route rt) = (Inr (truthy v), hist @ [resource self rt name])"
  by (simp add: receive_flag_def receive_answers)

lemma derive_action_result_answers:
  assumes collided: "answers svc hist (resource self SIMULATOR ''is_collided'') (JObj cs)"
      and cflag: "map_of cs ''is_collided'' = Some c"
      and finished: "truthy c \<or>
             (answers svc (hist @ [resource self SIMULATOR ''is_collided''])
                (resource self STATUS ''is_finished'') (JObj fs)
              \<and> map_of fs ''is_finished'' = Some f)"
  shows "derive_action_result svc self hist =
           (Inr (if truthy c then COLLISION else if truthy f then FINISHED else SUCCESS),
            hist @ resource self SIMULATOR ''is_collided''
                 # (if truthy c then [] else [resource self STATUS ''is_finished'']))"
proof (cases "truthy c")
  case True
  then show ?thesis
    by (simp add: derive_action_result_def receive_flag_answers [OF collided cflag])
next
  case False
  with finished have fin: "answers svc (hist @ [resource self SIMULATOR ''is_collided''])
                (resource self STATUS ''is_finished'') (JObj fs)"
    and fflag: "map_of fs ''is_finished'' = Some f"
    by auto
  from False show ?thesis
    by (simp add: derive_action_result_def receive_flag_answers [OF collided cflag]
          receive_flag_answers [OF fin fflag])
qed

lemma world_action_request:
  assumes "supervisor_address b = ''http://benchbot_supervisor:10000/''"
  shows "action_request b a action_kwargs
           = (''http://benchbot_supervisor:10000/connections/'' @ a, Some action_kwargs)"
  using assms by (simp add: action_request_def ensure_trailing_slash_def route_prefix_def)

lemma world_answers:
  assumes "supervisor_address b = ''http://benchbot_supervisor:10000/''"
  shows "accepts (world c f) hist (action_request b ''move_next'' [])"
    and "answers (world c f) hist (resource b SIMULATOR ''is_collided'')
           (JObj [(''is_collided'', JBool (c hist))])"
    and "answers (world c f) hist (resource b STATUS ''is_finished'')
           (JObj [(''is_finished'', JBool (f hist))])"
    and "answers (world c f) hist (resource b CONFIG ''actions'')
           (JList [JStr ''move_next'', JStr ''move_distance'', JStr ''move_angle''])"
  using assms
  by (simp_all add: accepts_def answers_def world_def world_resource world_action_request)

lemma crashed_answers:
  assumes "supervisor_address b = ''http://benchbot_supervisor:10000/''"
  shows "accepts crashed hist (action_request b ''move_next'' [])"
    and "answers crashed hist (resource b SIMULATOR ''is_collided'')
           (JObj [(''is_collided'', JBool True)])"
    and "crashed hist (resource b STATUS ''is_finished'') = Response 503 None"
    and "crashed hist (resource b CONFIG ''actions'') = Response 503 None"
  using assms
  by (simp_all add: accepts_def answers_def crashed_def world_def world_resource
        world_action_request)

lemma crashed_fetch_observations:
  assumes "supervisor_address b = ''http://benchbot_supervisor:10000/''"
  shows "fetch_observations crashed b hist =
           (case apply_callbacks (connection_callbacks b)
                   [(''image_rgb'', JStr ''raw pixels''), (''poses'', JObj [(''x'', JInt 1)])] of
              Inl e \<Rightarrow> Inl e | Inr obs \<Rightarrow> Inr obs,
            hist @ [(''http://benchbot_supervisor:10000/config/observations'', None),
                    (''http://benchbot_supervisor:10000/connections/image_rgb'', None),
                    (''http://benchbot_supervisor:10000/connections/poses'', None)])"
proof -
  have len: "length [JStr ''raw pixels'', JObj [(''x'', JInt 1)]] = length [''image_rgb'', ''poses'']"
    by simp
  have listed: "answers crashed hist (resource b CONFIG ''observations'')
           (JList (map JStr [''image_rgb'', ''poses'']))"
    using assms by (simp add: answers_def crashed_def world_def world_resource)
  have vals: "\<forall>i<length [''image_rgb'', ''poses''].
           answers crashed (hist @ resource b CONFIG ''observations''
                         # map (resource b CONNECTION) (take i [''image_rgb'', ''poses'']))
             (resource b CONNECTION ([''image_rgb'', ''poses''] ! i))
             ([JStr ''raw pixels'', JObj [(''x'', JInt 1)]] ! i)"
    using assms by (simp add: All_less_Suc answers_def crashed_def world_def world_resource)
  from fetch_observations_answers [OF listed len vals]
  show ?thesis
    by (simp add: py_dict_def world_resource [OF assms])
qed

lemma started_bot_simps:
  "supervisor_address started_bot = ''http://benchbot_supervisor:10000/''"
  "connection_callbacks started_bot
      = [(''image_rgb'', Some (\<lambda>v. Inr (JList [v]))), (''poses'', None)]"
  by (simp_all add: started_bot_def)

section \<open>Result of a step\<close>

text \<open>
  C5, as stated, fails in its order of queries: the two flags are not both queried. On a
  supervisor that would report both flags true the step asks for the collision flag,
  returns \<^verbatim>\<open>COLLISION\<close>, and never asks for the finished flag.
\<close>

theorem collision_skips_finished_query_counterexample:
  "step (world (\<lambda>h. True) (\<lambda>h. True)) started_bot [] (Some ''move_next'') [] =
     (Inr ([(''image_rgb'', JList [JStr ''raw pixels'']), (''poses'', JObj [(''x'', JInt 1)])],
           COLLISION),
      [(''http://benchbot_supervisor:10000/connections/move_next'', Some []),
       (''http://benchbot_supervisor:10000/simulator/is_collided'', None),
       (''http://benchbot_supervisor:10000/config/observations'', None),
       (''http://benchbot_supervisor:10000/connections/image_rgb'', None),
       (''http://benchbot_supervisor:10000/connections/poses'', None)])
   \<and> (''http://benchbot_supervisor:10000/status/is_finished'', None)
       \<notin> set (snd (step (world (\<lambda>h. True) (\<lambda>h. True)) started_bot [] (Some ''move_next'') []))"
proof -
  note addr = started_bot_simps(1)
  have "step (world (\<lambda>h. True) (\<lambda>h. True)) started_bot [] (Some ''move_next'') [] =
     (Inr ([(''image_rgb'', JList [JStr ''raw pixels'']), (''poses'', JObj [(''x'', JInt 1)])],
           COLLISION),
      [(''http://benchbot_supervisor:10000/connections/move_next'', Some []),
       (''http://benchbot_supervisor:10000/simulator/is_collided'', None),
       (''http://benchbot_supervisor:10000/config/observations'', None),
       (''http://benchbot_supervisor:10000/connections/image_rgb'', None),
       (''http://benchbot_supervisor:10000/connections/poses'', None)])"
    by (simp add: step_def bind_step_Nil validate_move_next world_send [OF addr]
          derive_action_result_def world_flags [OF addr] world_fetch_observations [OF addr]
          started_bot_simps(2))
  then show ?thesis by simp
qed

text \<open>
  C5, amended. In a step whose action and keyword names are those of a schema entry and
  whose action the supervisor accepts, the collision flag is fetched first, right after
  the action; the finished flag is fetched after it when, and only when, the collision
  flag was false. The result is a function of the flags the supervisor reports:
  \<^verbatim>\<open>COLLISION\<close> if the collision flag is true (whatever the finished flag would be),
  else \<^verbatim>\<open>FINISHED\<close> if the finished flag is true, else \<^verbatim>\<open>SUCCESS\<close>. The step pairs
  that result with the observations, and returns it when the supervisor answers the
  fetches of the observations and the registry transforms them.
\<close>

theorem step_result_from_flags:
  assumes schema: "map_of VALID_ACTIONS a = Some (map fst action_kwargs)"
      and sent: "accepts svc hist (action_request self a action_kwargs)"
      and h1: "h1 = hist @ [action_request self a action_kwargs]"
      and collided: "answers svc h1 (resource self SIMULATOR ''is_collided'') (JObj cs)"
      and cflag: "map_of cs ''is_collided'' = Some c"
      and finished: "truthy c \<or>
             (answers svc (h1 @ [resource self SIMULATOR ''is_collided''])
                (resource self STATUS ''is_finished'') (JObj fs)
              \<and> map_of fs ''is_finished'' = Some f)"
      and h2: "h2 = h1 @ resource self SIMULATOR ''is_collided''
                       # (if truthy c then [] else [resource self STATUS ''is_finished''])"
      and result: "result = (if truthy c then COLLISION else if truthy f then FINISHED else SUCCESS)"
  shows "derive_action_result svc self h1 = (Inr result, h2)
         \<and> step svc self hist (Some a) action_kwargs =
             (case fetch_observations svc self h2 of
                (Inl e, h) \<Rightarrow> (Inl e, h)
              | (Inr obs, h) \<Rightarrow> (Inr (obs, result), h))
         \<and> (answers svc h2 (resource self CONFIG ''observations'') (JList (map JStr names))
              \<and> length vals = length names
              \<and> (\<forall>i<length names.
                    answers svc (h2 @ resource self CONFIG ''observations''
                                    # map (resource self CONNECTION) (take i names))
                      (resource self CONNECTION (names ! i)) (vals ! i))
              \<and> list_all2 (transformed (connection_callbacks self)) (py_dict (zip names vals)) obs
            \<longrightarrow> step svc self hist (Some a) action_kwargs =
                  (Inr (obs, result),
                   h2 @ resource self CONFIG ''observations''
                      # map (resource self CONNECTION) names))"
proof -
  have valid: "validate (Some a) action_kwargs = Inr ()"
    using schema by (rule schema_validates)
  have bound: "bind_step action_kwargs = Inr ()"
    using valid by (rule validate_binds)
  have sent': "send svc self hist a (Some action_kwargs) (Route CONNECTION) = (Inr (), h1)"
    using sent unfolding h1 by (rule send_accepts)
  have derived: "derive_action_result svc self h1 = (Inr result, h2)"
    unfolding h2 result using collided cflag finished by (rule derive_action_result_answers)
  have step: "step svc self hist (Some a) action_kwargs =
             (case fetch_observations svc self h2 of
                (Inl e, h) \<Rightarrow> (Inl e, h)
              | (Inr obs, h) \<Rightarrow> (Inr (obs, result), h))"
    by (simp add: step_def bound valid sent' derived)
  have returns: "answers svc h2 (resource self CONFIG ''observations'') (JList (map JStr names))
              \<and> length vals = length names
              \<and> (\<forall>i<length names.
                    answers svc (h2 @ resource self CONFIG ''observations''
                                    # map (resource self CONNECTION) (take i names))
                      (resource self CONNECTION (names ! i)) (vals ! i))
              \<and> list_all2 (transformed (connection_callbacks self)) (py_dict (zip names vals)) obs
            \<longrightarrow> step svc self hist (Some a) action_kwargs =
                  (Inr (obs, result),
                   h2 @ resource self CONFIG ''observations''
                      # map (resource self CONNECTION) names)"
  proof
    assume asm: "answers svc h2 (resource self CONFIG ''observations'') (JList (map JStr names))
              \<and> length vals = length names
              \<and> (\<forall>i<length names.
                    answers svc (h2 @ resource self CONFIG ''observations''
                                    # map (resource self CONNECTION) (take i names))
                      (resource self CONNECTION (names ! i)) (vals ! i))
              \<and> list_all2 (transformed (connection_callbacks self)) (py_dict (zip names vals)) obs"
    then have listed: "answers svc h2 (resource self CONFIG ''observations'') (JList (map JStr names))"
      and len: "length vals = length names"
      and vals: "\<forall>i<length names.
                    answers svc (h2 @ resource self CONFIG ''observations''
                                    # map (resource self CONNECTION) (take i names))
                      (resource self CONNECTION (names ! i)) (vals ! i)"
      and "list_all2 (transformed (connection_callbacks self)) (py_dict (zip names vals)) obs"
      by blast+
    then have "apply_callbacks (connection_callbacks self) (py_dict (zip names vals)) = Inr obs"
      by (simp add: apply_callbacks_Inr_iff)
    then show "step svc self hist (Some a) action_kwargs =
                  (Inr (obs, result),
                   h2 @ resource self CONFIG ''observations''
                      # map (resource self CONNECTION) names)"
      by (simp add: step fetch_observations_answers [OF listed len vals])
  qed
  from derived step returns show ?thesis by blast
qed

theorem step_result_from_flags_witness:
  "step crashed started_bot [] (Some ''move_next'') [] =
     (Inr ([(''image_rgb'', JList [JStr ''raw pixels'']), (''poses'', JObj [(''x'', JInt 1)])],
           COLLISION),
      [(''http://benchbot_supervisor:10000/connections/move_next'', Some []),
       (''http://benchbot_supervisor:10000/simulator/is_collided'', None),
       (''http://benchbot_supervisor:10000/config/observations'', None),
       (''http://benchbot_supervisor:10000/connections/image_rgb'', None),
       (''http://benchbot_supervisor:10000/connections/poses'', None)])
   \<and> step (world (\<lambda>h. False) (\<lambda>h. True)) started_bot [] (Some ''move_next'') [] =
     (Inr ([(''image_rgb'', JList [JStr ''raw pixels'']), (''poses'', JObj [(''x'', JInt 1)])],
           FINISHED),
      [(''http://benchbot_supervisor:10000/connections/move_next'', Some []),
       (''http://benchbot_supervisor:10000/simulator/is_collided'', None),
       (''http://benchbot_supervisor:10000/status/is_finished'', None),
       (''http://benchbot_supervisor:10000/config/observations'', None),
       (''http://benchbot_supervisor:10000/connections/image_rgb'', None),
       (''http://benchbot_supervisor:10000/connections/poses'', None)])"
proof -
  note addr = started_bot_simps(1)
  let ?w = "world (\<lambda>h. False) (\<lambda>h. True)"
  let ?m = "(''http://benchbot_supervisor:10000/connections/move_next'', Some [])"
  let ?c = "(''http://benchbot_supervisor:10000/simulator/is_collided'', None)"
  let ?f = "(''http://benchbot_supervisor:10000/status/is_finished'', None)"
  have schema: "map_of VALID_ACTIONS ''move_next'' = Some (map fst ([] :: (string \<times> json) list))"
    by (simp add: VALID_ACTIONS_def)
  have h1: "[?m] = [] @ [action_request started_bot ''move_next'' []]"
    by (simp add: world_action_request [OF addr])
  have c1: "map_of [(''is_collided'', JBool True)] ''is_collided'' = Some (JBool True)"
    by simp
  have f1: "truthy (JBool True) \<or>
             (answers crashed ([?m] @ [resource started_bot SIMULATOR ''is_collided''])
                (resource started_bot STATUS ''is_finished'') (JObj [])
              \<and> map_of [] ''is_finished'' = Some JNull)"
    by simp
  have h2: "[?m, ?c] = [?m] @ resource started_bot SIMULATOR ''is_collided''
                       # (if truthy (JBool True) then []
                          else [resource started_bot STATUS ''is_finished''])"
    by (simp add: world_resource [OF addr])
  have r1: "COLLISION = (if truthy (JBool True) then COLLISION
                         else if truthy JNull then FINISHED else SUCCESS)"
    by simp
  have c2: "map_of [(''is_collided'', JBool False)] ''is_collided'' = Some (JBool False)"
    by simp
  have f2: "truthy (JBool False) \<or>
             (answers ?w ([?m] @ [resource started_bot SIMULATOR ''is_collided''])
                (resource started_bot STATUS ''is_finished'') (JObj [(''is_finished'', JBool True)])
              \<and> map_of [(''is_finished'', JBool True)] ''is_finished'' = Some (JBool True))"
    using world_answers(3) [OF addr, of "\<lambda>h. False" "\<lambda>h. True"] by simp
  have h2': "[?m, ?c, ?f] = [?m] @ resource started_bot SIMULATOR ''is_collided''
                       # (if truthy (JBool False) then []
                          else [resource started_bot STATUS ''is_finished''])"
    by (simp add: world_resource [OF addr])
  have r2: "FINISHED = (if truthy (JBool False) then COLLISION
                        else if truthy (JBool True) then FINISHED else SUCCESS)"
    by simp
  from step_result_from_flags
         [OF schema crashed_answers(1) [OF addr] h1 crashed_answers(2) [OF addr] c1 f1 h2 r1]
       step_result_from_flags
         [OF schema world_answers(1) [OF addr] h1 world_answers(2) [OF addr] c2 f2 h2' r2]
  show ?thesis
    by (simp add: crashed_fetch_observations [OF addr] world_fetch_observations [OF addr]
          started_bot_simps(2))
qed

section \<open>Available actions\<close>

text \<open>
  C6, as stated, fails in that both flags are queried on every access: when the
  collision flag is true, \<^verbatim>\<open>or\<close> never evaluates the second fetch, and the access makes
  one exchange only.
\<close>

theorem collided_access_skips_finished_counterexample:
  "actions (world (\<lambda>h. True) (\<lambda>h. True)) started_bot [] =
     (Inr (JList []), [(''http://benchbot_supervisor:10000/simulator/is_collided'', None)])
   \<and> (''http://benchbot_supervisor:10000/status/is_finished'', None)
       \<notin> set (snd (actions (world (\<lambda>h. True) (\<lambda>h. True)) started_bot []))"
  by (simp add: actions_def world_flags [OF started_bot_simps(1)])

text \<open>
  C6, amended. An access of \<^verbatim>\<open>actions\<close>, after any exchanges whatever, keeps nothing
  from earlier accesses: it fetches the collision flag anew; when that flag is false it
  fetches the finished flag anew; when both are false it fetches the declared actions.
  The result is the empty list when the collision flag is true or the finished flag is
  true, and the list the supervisor declares otherwise. Nothing is asked of the
  supervisor beyond the fetches made: with a collision reported, the access returns the
  empty list also when the status and the declared actions cannot be fetched. In the
  example the same access gives the declared list before the robot has moved and the
  empty list after.
\<close>

theorem actions_from_live_flags:
  assumes collided: "answers svc hist (resource self SIMULATOR ''is_collided'') (JObj cs)"
      and cflag: "map_of cs ''is_collided'' = Some c"
      and finished: "truthy c \<or>
             (answers svc (hist @ [resource self SIMULATOR ''is_collided''])
                (resource self STATUS ''is_finished'') (JObj fs)
              \<and> map_of fs ''is_finished'' = Some f)"
      and declared: "truthy c \<or> truthy f \<or>
             answers svc (hist @ [resource self SIMULATOR ''is_collided'',
                                  resource self STATUS ''is_finished''])
               (resource self CONFIG ''actions'') declared"
  shows "actions svc self hist =
           (if truthy c
            then (Inr (JList []), hist @ [resource self SIMULATOR ''is_collided''])
            else if truthy f
            then (Inr (JList []), hist @ [resource self SIMULATOR ''is_collided'',
                                          resource self STATUS ''is_finished''])
            else (Inr declared, hist @ [resource self SIMULATOR ''is_collided'',
                                        resource self STATUS ''is_finished'',
                                        resource self CONFIG ''actions'']))"
proof (cases "truthy c")
  case True
  then show ?thesis
    by (simp add: actions_def receive_flag_answers [OF collided cflag])
next
  case notc: False
  with finished have fin: "answers svc (hist @ [resource self SIMULATOR ''is_collided''])
                (resource self STATUS ''is_finished'') (JObj fs)"
    and fflag: "map_of fs ''is_finished'' = Some f"
    by auto
  show ?thesis
  proof (cases "truthy f")
    case True
    with notc show ?thesis
      by (simp add: actions_def receive_flag_answers [OF collided cflag]
            receive_flag_answers [OF fin fflag])
  next
    case False
    with notc declared have "answers svc ((hist @ [resource self SIMULATOR ''is_collided''])
                                  @ [resource self STATUS ''is_finished''])
               (resource self CONFIG ''actions'') declared"
      by simp
    from receive_answers [OF this] notc False show ?thesis
      by (simp add: actions_def receive_flag_answers [OF collided cflag]
            receive_flag_answers [OF fin fflag])
  qed
qed

theorem actions_from_live_flags_witness:
  "actions crashed started_bot [] =
     (Inr (JList []), [(''http://benchbot_supervisor:10000/simulator/is_collided'', None)])
   \<and> actions (world moved (\<lambda>h. False)) started_bot [] =
     (Inr (JList [JStr ''move_next'', JStr ''move_distance'', JStr ''move_angle'']),
      [(''http://benchbot_supervisor:10000/simulator/is_collided'', None),
       (''http://benchbot_supervisor:10000/status/is_finished'', None),
       (''http://benchbot_supervisor:10000/config/actions'', None)])
   \<and> actions (world moved (\<lambda>h. False)) started_bot
       [(''http://benchbot_supervisor:10000/connections/move_next'', Some [])] =
     (Inr (JList []),
      [(''http://benchbot_supervisor:10000/connections/move_next'', Some []),
       (''http://benchbot_supervisor:10000/simulator/is_collided'', None)])"
proof -
  note addr = started_bot_simps(1)
  let ?w = "world moved (\<lambda>h. False)"
  let ?m = "(''http://benchbot_supervisor:10000/connections/move_next'', Some [])"
  let ?declared = "JList [JStr ''move_next'', JStr ''move_distance'', JStr ''move_angle'']"
  have ct: "map_of [(''is_collided'', JBool True)] ''is_collided'' = Some (JBool True)"
    by simp
  have cf: "map_of [(''is_collided'', JBool False)] ''is_collided'' = Some (JBool False)"
    by simp
  have skip_f: "truthy (JBool True) \<or>
             (answers svc (h @ [resource started_bot SIMULATOR ''is_collided''])
                (resource started_bot STATUS ''is_finished'') (JObj [])
              \<and> map_of [] ''is_finished'' = Some JNull)" for svc h
    by simp
  have skip_d: "truthy (JBool True) \<or> truthy JNull \<or>
             answers svc (h @ [resource started_bot SIMULATOR ''is_collided'',
                               resource started_bot STATUS ''is_finished''])
               (resource started_bot CONFIG ''actions'') JNull" for svc h
    by simp
  have moved0: "JBool (moved []) = JBool False"
    by (simp add: moved_def)
  have moved1: "JBool (moved [?m]) = JBool True"
    by (simp add: moved_def)
  have c0: "answers ?w [] (resource started_bot SIMULATOR ''is_collided'')
              (JObj [(''is_collided'', JBool False)])"
    using world_answers(2) [OF addr, of moved "\<lambda>h. False" "[]"] by (simp add: moved0)
  have f0: "truthy (JBool False) \<or>
             (answers ?w ([] @ [resource started_bot SIMULATOR ''is_collided''])
                (resource started_bot STATUS ''is_finished'') (JObj [(''is_finished'', JBool False)])
              \<and> map_of [(''is_finished'', JBool False)] ''is_finished'' = Some (JBool False))"
    using world_answers(3) [OF addr, of moved "\<lambda>h. False"] by simp
  have d0: "truthy (JBool False) \<or> truthy (JBool False) \<or>
             answers ?w ([] @ [resource started_bot SIMULATOR ''is_collided'',
                               resource started_bot STATUS ''is_finished''])
               (resource started_bot CONFIG ''actions'') ?declared"
    using world_answers(4) [OF addr, of moved "\<lambda>h. False"] by simp
  have c1: "answers ?w [?m] (resource started_bot SIMULATOR ''is_collided'')
              (JObj [(''is_collided'', JBool True)])"
    using world_answers(2) [OF addr, of moved "\<lambda>h. False" "[?m]"] by (simp add: moved1)
  from actions_from_live_flags [OF crashed_answers(2) [OF addr] ct skip_f skip_d, of "[]"]
       actions_from_live_flags [OF c0 cf f0 d0]
       actions_from_live_flags [OF c1 ct skip_f skip_d]
  show ?thesis
    by (simp add: world_resource [OF addr])
qed


section \<open>Observations of a step\<close>




end
